theory Spec2Isabelle
  imports Main "HOL-Library.Sublist"
begin

section \<open>The Go library functions used by \<^verbatim>\<open>lmstudio/export.go\<close>\<close>

text \<open>
  A Go \<^verbatim>\<open>string\<close> is a sequence of bytes; it is modelled as a \<^typ>\<open>string\<close>, one
  \<^typ>\<open>char\<close> per byte. The functions of package \<^verbatim>\<open>strings\<close> that the exporter calls
  are written out below with the argument order of the Go functions.
\<close>

definition HasPrefix :: "string \<Rightarrow> string \<Rightarrow> bool" where
  "HasPrefix s p = prefix p s"

definition HasSuffix :: "string \<Rightarrow> string \<Rightarrow> bool" where
  "HasSuffix s p = suffix p s"

definition TrimPrefix :: "string \<Rightarrow> string \<Rightarrow> string" where
  "TrimPrefix s p = (if HasPrefix s p then drop (length p) s else s)"

definition TrimSuffix :: "string \<Rightarrow> string \<Rightarrow> string" where
  "TrimSuffix s p = (if HasSuffix s p then take (length s - length p) s else s)"

text \<open>\<^verbatim>\<open>strings.Contains(s, substr)\<close>: \<^verbatim>\<open>substr\<close> occurs at some position of \<^verbatim>\<open>s\<close>.\<close>

fun Contains :: "string \<Rightarrow> string \<Rightarrow> bool" where
  "Contains [] sub = (sub = [])"
| "Contains (c # cs) sub = (prefix sub (c # cs) \<or> Contains cs sub)"

text \<open>
  \<^verbatim>\<open>strings.Split(s, sep)\<close> for a separator of one byte (the exporter splits on the
  newline only): the pieces between the occurrences of the separator, so a string with
  \<open>n\<close> separators gives \<open>n + 1\<close> pieces.
\<close>

fun Split :: "string \<Rightarrow> char \<Rightarrow> string list" where
  "Split [] sep = [[]]"
| "Split (c # cs) sep =
     (if c = sep then [] # Split cs sep
      else (case Split cs sep of
              [] \<Rightarrow> [[c]]
            | piece # pieces \<Rightarrow> (c # piece) # pieces))"

text \<open>
  \<^verbatim>\<open>strings.SplitN(s, sep, 2)\<close> for a separator of one byte: the text before the
  first separator and the text after it, or the whole string alone when there is no
  separator.
\<close>

definition SplitN2 :: "string \<Rightarrow> char \<Rightarrow> string list" where
  "SplitN2 s sep =
     (if sep \<in> set s
      then [takeWhile (\<lambda>c. c \<noteq> sep) s, tl (dropWhile (\<lambda>c. c \<noteq> sep) s)]
      else [s])"

text \<open>\<^verbatim>\<open>strings.Trim(s, cutset)\<close> for a cutset of ASCII bytes.\<close>

definition Trim :: "string \<Rightarrow> string \<Rightarrow> string" where
  "Trim s cutset =
     rev (dropWhile (\<lambda>c. c \<in> set cutset) (rev (dropWhile (\<lambda>c. c \<in> set cutset) s)))"

text \<open>
  \<^verbatim>\<open>strings.TrimSpace\<close> removes the leading and the trailing white space as Unicode
  defines it. On bytes these are the six ASCII characters tab, line feed, vertical tab,
  form feed, carriage return and space, and the UTF-8 encodings of U+0085, U+00A0,
  U+1680, U+2000 to U+200A, U+2028, U+2029, U+202F, U+205F and U+3000.
\<close>

definition spaceRunes :: "string list" where
  "spaceRunes =
     [[CHR 0x09], [CHR 0x0A], [CHR 0x0B], [CHR 0x0C], [CHR 0x0D], [CHR 0x20],
      [CHR 0xC2, CHR 0x85], [CHR 0xC2, CHR 0xA0],
      [CHR 0xE1, CHR 0x9A, CHR 0x80],
      [CHR 0xE2, CHR 0x80, CHR 0x80], [CHR 0xE2, CHR 0x80, CHR 0x81],
      [CHR 0xE2, CHR 0x80, CHR 0x82], [CHR 0xE2, CHR 0x80, CHR 0x83],
      [CHR 0xE2, CHR 0x80, CHR 0x84], [CHR 0xE2, CHR 0x80, CHR 0x85],
      [CHR 0xE2, CHR 0x80, CHR 0x86], [CHR 0xE2, CHR 0x80, CHR 0x87],
      [CHR 0xE2, CHR 0x80, CHR 0x88], [CHR 0xE2, CHR 0x80, CHR 0x89],
      [CHR 0xE2, CHR 0x80, CHR 0x8A],
      [CHR 0xE2, CHR 0x80, CHR 0xA8], [CHR 0xE2, CHR 0x80, CHR 0xA9],
      [CHR 0xE2, CHR 0x80, CHR 0xAF], [CHR 0xE2, CHR 0x81, CHR 0x9F],
      [CHR 0xE3, CHR 0x80, CHR 0x80]]"

text \<open>The number of bytes of the white-space rune at the head of the string, if any.\<close>

definition leadingSpace :: "string \<Rightarrow> nat option" where
  "leadingSpace s = map_option length (find (\<lambda>r. prefix r s) spaceRunes)"

text \<open>
  The same at the end of a string given back to front: the string ends with the
  encoding of a white-space rune.
\<close>

definition trailingSpace :: "string \<Rightarrow> nat option" where
  "trailingSpace rs = map_option length (find (\<lambda>r. prefix (rev r) rs) spaceRunes)"

fun trimRunes :: "(string \<Rightarrow> nat option) \<Rightarrow> nat \<Rightarrow> string \<Rightarrow> string" where
  "trimRunes width (Suc n) (c # cs) = trimRunes width n cs"
| "trimRunes width n [] = []"
| "trimRunes width 0 (c # cs) =
     (case width (c # cs) of
        None \<Rightarrow> c # cs
      | Some w \<Rightarrow> trimRunes width (w - 1) cs)"

definition TrimSpace :: "string \<Rightarrow> string" where
  "TrimSpace s = rev (trimRunes trailingSpace 0 (rev (trimRunes leadingSpace 0 s)))"

section \<open>The template translator\<close>

text \<open>
  The translator compiles six regular expressions and replaces all their matches, one
  expression after the other. Each expression is a sequence of literal texts,
  \<^verbatim>\<open>\s*\<close> and \<^verbatim>\<open>\s+\<close>, where \<^verbatim>\<open>\s\<close> is the class of tab, line feed, form feed,
  carriage return and space of Go's regular expressions. In each of them a run of white
  space is followed by a literal that starts with another character, so the match at a
  position, if there is one, is the one that takes the whole run: matching the items
  from left to right without going back finds it.
\<close>

datatype re_item = Lit string | Star_s | Plus_s

definition is_s :: "char \<Rightarrow> bool" where
  "is_s c = (c = CHR 0x09 \<or> c = CHR 0x0A \<or> c = CHR 0x0C \<or> c = CHR 0x0D \<or> c = CHR 0x20)"

text \<open>The text after the match of the items at the head of the string.\<close>

fun match_items :: "re_item list \<Rightarrow> string \<Rightarrow> string option" where
  "match_items [] s = Some s"
| "match_items (Lit l # items) s =
     (if prefix l s then match_items items (drop (length l) s) else None)"
| "match_items (Star_s # items) s = match_items items (dropWhile is_s s)"
| "match_items (Plus_s # items) s =
     (case s of
        [] \<Rightarrow> None
      | c # cs \<Rightarrow> if is_s c then match_items items (dropWhile is_s cs) else None)"

text \<open>
  \<^verbatim>\<open>re.ReplaceAllString(src, repl)\<close> for a replacement text without \<^verbatim>\<open>$\<close>: the
  matches are found from left to right, each search starting where the last match
  ended, and each match is replaced by \<^verbatim>\<open>repl\<close>. An expression that matched the empty
  string would put the replacement in front of the next byte and go on behind it; none
  of the six expressions does.
\<close>

function ReplaceAllString :: "re_item list \<Rightarrow> string \<Rightarrow> string \<Rightarrow> string" where
  "ReplaceAllString re [] repl = []"
| "ReplaceAllString re (c # cs) repl =
     (case match_items re (c # cs) of
        None \<Rightarrow> c # ReplaceAllString re cs repl
      | Some rest \<Rightarrow>
          if length rest \<le> length cs then repl @ ReplaceAllString re rest repl
          else repl @ c # ReplaceAllString re cs repl)"
  by pat_completeness auto
termination
  by (relation "measure (\<lambda>(re, src, repl). length src)") auto

definition reIfSystem :: "re_item list" where
  "reIfSystem = [Lit ''{{'', Star_s, Lit ''if'', Plus_s, Lit ''.System'', Star_s, Lit ''}}'']"

definition reIfPrompt :: "re_item list" where
  "reIfPrompt = [Lit ''{{'', Star_s, Lit ''if'', Plus_s, Lit ''.Prompt'', Star_s, Lit ''}}'']"

definition reEnd :: "re_item list" where
  "reEnd = [Lit ''{{'', Star_s, Lit ''end'', Star_s, Lit ''}}'']"

definition reSystem :: "re_item list" where
  "reSystem = [Lit ''{{'', Star_s, Lit ''.System'', Star_s, Lit ''}}'']"

definition rePrompt :: "re_item list" where
  "rePrompt = [Lit ''{{'', Star_s, Lit ''.Prompt'', Star_s, Lit ''}}'']"

definition reResponse :: "re_item list" where
  "reResponse = [Lit ''{{'', Star_s, Lit ''.Response'', Star_s, Lit ''}}'']"

definition convertGoTemplateToJinja :: "string \<Rightarrow> string" where
  "convertGoTemplateToJinja goTemplate =
     (let result = goTemplate;
          result = ReplaceAllString reIfSystem result ''{% if system_message %}'';
          result = ReplaceAllString reIfPrompt result ''{% if user_message %}'';
          result = ReplaceAllString reEnd result ''{% endif %}'';
          result = ReplaceAllString reSystem result ''{{ system_message }}'';
          result = ReplaceAllString rePrompt result ''{{ user_message }}'';
          result = ReplaceAllString reResponse result ''{{ model_response }}''
      in result)"

section \<open>The parsed Modelfile and the directive parser\<close>

text \<open>
  A Go slice is either \<^verbatim>\<open>nil\<close> or holds a list of elements; the two differ when the
  slice is written as JSON (\<^verbatim>\<open>null\<close> against \<^verbatim>\<open>[]\<close>). Indexing a Go map at a key it
  does not hold gives the zero value of the value type, for a slice \<^verbatim>\<open>nil\<close>.
\<close>

datatype 'a slice = NilSlice | Slice "'a list"

fun elems :: "'a slice \<Rightarrow> 'a list" where
  "elems NilSlice = []"
| "elems (Slice xs) = xs"

definition len :: "'a slice \<Rightarrow> nat" where
  "len sl = length (elems sl)"

definition append :: "'a slice \<Rightarrow> 'a \<Rightarrow> 'a slice" where
  "append sl x = Slice (elems sl @ [x])"

definition index :: "('k \<rightharpoonup> 'a slice) \<Rightarrow> 'k \<Rightarrow> 'a slice" where
  "index m k = (case m k of None \<Rightarrow> NilSlice | Some sl \<Rightarrow> sl)"

fun Join :: "string list \<Rightarrow> string \<Rightarrow> string" where
  "Join [] sep = []"
| "Join [x] sep = x"
| "Join (x # y # ys) sep = x @ sep @ Join (y # ys) sep"

text \<open>The value the Go functions return beside their result: an error with its message.\<close>

datatype error = Error string

record ParsedModelfile =
  Template :: string
  System :: string
  Parameters :: "string \<rightharpoonup> string slice"

text \<open>
  The local variables of the loop of \<^verbatim>\<open>ParseOllamaModelfile\<close>. The two slices of
  collected lines are only appended to, measured and joined, so they are lists here.
\<close>

record parser_state =
  parsedFile :: ParsedModelfile
  templateLines :: "string list"
  systemLines :: "string list"
  inTemplate :: bool
  inMultilineTemplate :: bool
  inDoubleQuotedTemplate :: bool
  inSystem :: bool
  inMultilineSystem :: bool
  inDoubleQuotedSystem :: bool

definition emptyParsed :: ParsedModelfile where
  "emptyParsed = \<lparr>Template = [], System = [], Parameters = Map.empty\<rparr>"

definition initialState :: parser_state where
  "initialState =
     \<lparr>parsedFile = emptyParsed, templateLines = [], systemLines = [],
      inTemplate = False, inMultilineTemplate = False, inDoubleQuotedTemplate = False,
      inSystem = False, inMultilineSystem = False, inDoubleQuotedSystem = False\<rparr>"

text \<open>
  The body of the loop over the lines has six branches. Each of the first five is
  written as a function of its own, on the state, the line and the trimmed line.

  A line that starts with \<^verbatim>\<open>TEMPLATE\<close> while no template is being collected:
\<close>

definition templateDirective :: "parser_state \<Rightarrow> string \<Rightarrow> parser_state" where
  "templateDirective st trimmed =
     (if Contains trimmed ''\"\"\"'' then
        (let templateContent = TrimPrefix trimmed ''TEMPLATE '';
             templateContent = TrimSpace templateContent;
             templateContent =
               (if HasPrefix templateContent ''\"\"\"''
                then TrimPrefix templateContent ''\"\"\"'' else templateContent)
         in st\<lparr>inTemplate := True, inMultilineTemplate := True,
                templateLines :=
                  (if templateContent \<noteq> [] then templateLines st @ [templateContent]
                   else templateLines st)\<rparr>)
      else if HasPrefix trimmed ''TEMPLATE \"'' then
        (let templateContent = TrimPrefix trimmed ''TEMPLATE '';
             templateContent = TrimSpace templateContent;
             templateContent = TrimPrefix templateContent ''\"''
         in if HasSuffix templateContent ''\"''
            then st\<lparr>parsedFile :=
                   (parsedFile st)\<lparr>Template := TrimSuffix templateContent ''\"''\<rparr>\<rparr>
            else st\<lparr>inTemplate := True, inDoubleQuotedTemplate := True,
                    templateLines :=
                      (if templateContent \<noteq> [] then templateLines st @ [templateContent]
                       else templateLines st)\<rparr>)
      else st)"

text \<open>A line met while a template is being collected:\<close>

definition templateCapture :: "parser_state \<Rightarrow> string \<Rightarrow> string \<Rightarrow> parser_state" where
  "templateCapture st line trimmed =
     (if inMultilineTemplate st \<and> HasSuffix trimmed ''\"\"\"'' then
        (let line = TrimSuffix line ''\"\"\"''
         in st\<lparr>templateLines :=
                  (if line \<noteq> [] then templateLines st @ [line] else templateLines st),
                inTemplate := False, inMultilineTemplate := False\<rparr>)
      else if inDoubleQuotedTemplate st \<and> HasSuffix trimmed ''\"'' then
        (let line = TrimSuffix line ''\"''
         in st\<lparr>templateLines :=
                  (if line \<noteq> [] then templateLines st @ [line] else templateLines st),
                inTemplate := False, inDoubleQuotedTemplate := False\<rparr>)
      else st\<lparr>templateLines := templateLines st @ [line]\<rparr>)"

text \<open>A line that starts with \<^verbatim>\<open>SYSTEM\<close> while no system prompt is being collected:\<close>

definition systemDirective :: "parser_state \<Rightarrow> string \<Rightarrow> parser_state" where
  "systemDirective st trimmed =
     (if Contains trimmed ''\"\"\"'' then
        (let systemContent = TrimPrefix trimmed ''SYSTEM '';
             systemContent = TrimSpace systemContent;
             systemContent =
               (if HasPrefix systemContent ''\"\"\"''
                then TrimPrefix systemContent ''\"\"\"'' else systemContent)
         in st\<lparr>inSystem := True, inMultilineSystem := True,
                systemLines :=
                  (if systemContent \<noteq> [] then systemLines st @ [systemContent]
                   else systemLines st)\<rparr>)
      else if HasPrefix trimmed ''SYSTEM \"'' then
        (let systemContent = TrimPrefix trimmed ''SYSTEM '';
             systemContent = TrimSpace systemContent;
             systemContent = TrimPrefix systemContent ''\"''
         in if HasSuffix systemContent ''\"''
            then st\<lparr>parsedFile :=
                   (parsedFile st)\<lparr>System := TrimSuffix systemContent ''\"''\<rparr>\<rparr>
            else st\<lparr>inSystem := True, inDoubleQuotedSystem := True,
                    systemLines :=
                      (if systemContent \<noteq> [] then systemLines st @ [systemContent]
                       else systemLines st)\<rparr>)
      else st)"

text \<open>A line met while a system prompt is being collected:\<close>

definition systemCapture :: "parser_state \<Rightarrow> string \<Rightarrow> string \<Rightarrow> parser_state" where
  "systemCapture st line trimmed =
     (if inMultilineSystem st \<and> HasSuffix trimmed ''\"\"\"'' then
        (let line = TrimSuffix line ''\"\"\"''
         in st\<lparr>systemLines :=
                  (if line \<noteq> [] then systemLines st @ [line] else systemLines st),
                inSystem := False, inMultilineSystem := False\<rparr>)
      else if inDoubleQuotedSystem st \<and> HasSuffix trimmed ''\"'' then
        (let line = TrimSuffix line ''\"''
         in st\<lparr>systemLines :=
                  (if line \<noteq> [] then systemLines st @ [line] else systemLines st),
                inSystem := False, inDoubleQuotedSystem := False\<rparr>)
      else st\<lparr>systemLines := systemLines st @ [line]\<rparr>)"

text \<open>A line that starts with \<^verbatim>\<open>PARAMETER\<close> and a space:\<close>

definition parameterDirective :: "parser_state \<Rightarrow> string \<Rightarrow> parser_state" where
  "parameterDirective st trimmed =
     (let paramStr = TrimPrefix trimmed ''PARAMETER '';
          parts = SplitN2 paramStr CHR '' ''
      in if length parts = 2 then
           (let key = parts ! 0;
                value = Trim (parts ! 1) ''\"''
            in st\<lparr>parsedFile := (parsedFile st)\<lparr>Parameters :=
                     (Parameters (parsedFile st))
                       (key \<mapsto> append (index (Parameters (parsedFile st)) key) value)\<rparr>\<rparr>)
         else st)"

text \<open>The chain of conditions that selects the branch, in the order of the source.\<close>

definition parseLine :: "parser_state \<Rightarrow> string \<Rightarrow> parser_state" where
  "parseLine st line =
     (let trimmed = TrimSpace line in
      if HasPrefix trimmed ''TEMPLATE'' \<and> \<not> inTemplate st then templateDirective st trimmed
      else if inTemplate st then templateCapture st line trimmed
      else if HasPrefix trimmed ''SYSTEM'' \<and> \<not> inSystem st then systemDirective st trimmed
      else if inSystem st then systemCapture st line trimmed
      else if HasPrefix trimmed ''PARAMETER '' then parameterDirective st trimmed
      else st)"

text \<open>What follows the loop: the collected lines, when there are any, replace the field.\<close>

definition finish :: "parser_state \<Rightarrow> ParsedModelfile" where
  "finish st =
     (let p = parsedFile st;
          p = (if length (templateLines st) > 0
               then p\<lparr>Template := Join (templateLines st) [CHR 0x0A]\<rparr> else p);
          p = (if length (systemLines st) > 0
               then p\<lparr>System := Join (systemLines st) [CHR 0x0A]\<rparr> else p)
      in p)"

definition ParseOllamaModelfile :: "string \<Rightarrow> error + ParsedModelfile" where
  "ParseOllamaModelfile modelfileContent =
     (if modelfileContent = [] then Inr emptyParsed
      else (let lines = Split modelfileContent (CHR 0x0A)
            in Inr (finish (foldl parseLine initialState lines))))"

text \<open>
  The list a parse result holds under a parameter name, as indexing the map gives it;
  nothing when the parse returned an error.
\<close>

definition parameterValues :: "error + ParsedModelfile \<Rightarrow> string \<Rightarrow> string slice option" where
  "parameterValues r key =
     (case r of Inl e \<Rightarrow> None | Inr p \<Rightarrow> Some (index (Parameters p) key))"

definition parsedTemplate :: "error + ParsedModelfile \<Rightarrow> string option" where
  "parsedTemplate r = (case r of Inl e \<Rightarrow> None | Inr p \<Rightarrow> Some (Template p))"

definition parsedSystem :: "error + ParsedModelfile \<Rightarrow> string option" where
  "parsedSystem r = (case r of Inl e \<Rightarrow> None | Inr p \<Rightarrow> Some (System p))"

section \<open>The two format mappers\<close>

subsection \<open>Token heuristics\<close>

fun firstWithPrefix :: "string \<Rightarrow> string list \<Rightarrow> string" where
  "firstWithPrefix template [] = []"
| "firstWithPrefix template (token # tokens) =
     (if HasPrefix template token then token else firstWithPrefix template tokens)"

definition bosTokens :: "string list" where
  "bosTokens = [''[gMASK]'', ''<s>'', ''<|begin_of_text|>'', ''<|im_start|>'']"

definition extractBOSToken :: "string \<Rightarrow> string" where
  "extractBOSToken template = firstWithPrefix template bosTokens"

fun firstContained :: "string \<Rightarrow> string list \<Rightarrow> string" where
  "firstContained template [] = []"
| "firstContained template (token # tokens) =
     (if Contains template token then token else firstContained template tokens)"

definition eosTokens :: "string list" where
  "eosTokens = [''<|endoftext|>'', ''</s>'', ''<|end_of_text|>'', ''<|im_end|>'', ''<|user|>'']"

definition extractEOSToken :: "string \<Rightarrow> string" where
  "extractEOSToken template = firstContained template eosTokens"

subsection \<open>Number parsing\<close>

text \<open>
  \<^verbatim>\<open>strconv.Atoi\<close> where \<^verbatim>\<open>int\<close> has 64 bits: an optional sign and then decimal
  digits only, at least one, with a value that fits. The result is the number when the
  returned error is \<^verbatim>\<open>nil\<close>.
\<close>

definition isDigit :: "char \<Rightarrow> bool" where
  "isDigit c = (c \<in> set ''0123456789'')"

definition digitsValue :: "string \<Rightarrow> int" where
  "digitsValue ds = foldl (\<lambda>n ch. n * 10 + (int (of_char ch) - 48)) 0 ds"

definition Atoi :: "string \<Rightarrow> int option" where
  "Atoi s =
     (let neg = (s \<noteq> [] \<and> hd s = CHR ''-'');
          ds = (if s \<noteq> [] \<and> (hd s = CHR ''-'' \<or> hd s = CHR ''+'') then tl s else s)
      in if ds = [] \<or> \<not> list_all isDigit ds then None
         else (let n = digitsValue ds
               in if neg then (if 2 ^ 63 < n then None else Some (- n))
                  else (if 2 ^ 63 \<le> n then None else Some n)))"

subsection \<open>The flat document\<close>

record ContentConfig =
  Type :: string

record MessagesConfig =
  ContentConfig :: ContentConfig

record InputConfig =
  MessagesConfig :: MessagesConfig
  UseTools :: bool

record JinjaTemplateDetails =
  Template :: string
  BosToken :: string
  EosToken :: string
  InputConfig :: InputConfig

record JinjaPromptTemplate =
  Type :: string
  JinjaPromptTemplate :: JinjaTemplateDetails
  StopStrings :: "string slice"

text \<open>
  The value of a field is an \<^verbatim>\<open>interface{}\<close>; the flat mapper stores a template
  object, a \<^verbatim>\<open>float64\<close> or an \<^verbatim>\<open>int\<close> there. The type of the 64-bit floats is left
  open, and with it \<^verbatim>\<open>strconv.ParseFloat\<close>, which the mapper takes as an argument:
  it gives the number when the error it returns is \<^verbatim>\<open>nil\<close>.
\<close>

datatype 'f config_value =
    TemplateValue JinjaPromptTemplate
  | FloatValue 'f
  | IntValue int

record 'f ConfigField =
  Key :: string
  Value :: "'f config_value"

record 'f PredictionConfig =
  Fields :: "'f ConfigField list"

record 'f LoadModelConfig =
  Fields :: "'f ConfigField list"

record 'f LMStudioConfig =
  PredictionConfig :: "'f PredictionConfig"
  LoadModelConfig :: "'f LoadModelConfig"

definition addPrediction :: "'f LMStudioConfig \<Rightarrow> 'f ConfigField \<Rightarrow> 'f LMStudioConfig" where
  "addPrediction config field =
     config\<lparr>PredictionConfig :=
       (PredictionConfig config)\<lparr>PredictionConfig.Fields :=
          PredictionConfig.Fields (PredictionConfig config) @ [field]\<rparr>\<rparr>"

definition addLoad :: "'f LMStudioConfig \<Rightarrow> 'f ConfigField \<Rightarrow> 'f LMStudioConfig" where
  "addLoad config field =
     config\<lparr>LoadModelConfig :=
       (LoadModelConfig config)\<lparr>LoadModelConfig.Fields :=
          LoadModelConfig.Fields (LoadModelConfig config) @ [field]\<rparr>\<rparr>"

text \<open>The part of the mapper that handles the template.\<close>

definition templateField :: "ParsedModelfile \<Rightarrow> 'f ConfigField" where
  "templateField parsed =
     (let bosToken = extractBOSToken (ParsedModelfile.Template parsed);
          eosToken = extractEOSToken (ParsedModelfile.Template parsed);
          stopStrings = index (Parameters parsed) ''stop'';
          jinjaTemplate = convertGoTemplateToJinja (ParsedModelfile.Template parsed);
          templateValue =
            \<lparr>JinjaPromptTemplate.Type = ''jinja'',
             JinjaPromptTemplate =
               \<lparr>JinjaTemplateDetails.Template = jinjaTemplate,
                BosToken = bosToken,
                EosToken = eosToken,
                InputConfig =
                  \<lparr>MessagesConfig = \<lparr>ContentConfig = \<lparr>ContentConfig.Type = ''string''\<rparr>\<rparr>,
                   UseTools = False\<rparr>\<rparr>,
             StopStrings = stopStrings\<rparr>
      in \<lparr>ConfigField.Key = ''llm.prediction.promptTemplate'',
          ConfigField.Value = TemplateValue templateValue\<rparr>)"

text \<open>The body of the loop over the parameter map, for one key of the map.\<close>

definition mapParameter ::
  "(string \<Rightarrow> 'f option) \<Rightarrow> ParsedModelfile \<Rightarrow> 'f LMStudioConfig \<Rightarrow> string \<Rightarrow> 'f LMStudioConfig"
where
  "mapParameter ParseFloat parsed config paramKey =
     (let values = index (Parameters parsed) paramKey in
      if paramKey = ''stop'' then config
      else if len values > 0 then
        (let value = hd (elems values) in
         if paramKey = ''temperature'' then
           (case ParseFloat value of
              Some temp \<Rightarrow> addPrediction config
                \<lparr>ConfigField.Key = ''llm.prediction.temperature'', ConfigField.Value = FloatValue temp\<rparr>
            | None \<Rightarrow> config)
         else if paramKey = ''top_p'' then
           (case ParseFloat value of
              Some topP \<Rightarrow> addPrediction config
                \<lparr>ConfigField.Key = ''llm.prediction.topP'', ConfigField.Value = FloatValue topP\<rparr>
            | None \<Rightarrow> config)
         else if paramKey = ''top_k'' then
           (case Atoi value of
              Some topK \<Rightarrow> addPrediction config
                \<lparr>ConfigField.Key = ''llm.prediction.topK'', ConfigField.Value = IntValue topK\<rparr>
            | None \<Rightarrow> config)
         else if paramKey = ''repeat_penalty'' then
           (case ParseFloat value of
              Some penalty \<Rightarrow> addPrediction config
                \<lparr>ConfigField.Key = ''llm.prediction.repeatPenalty'', ConfigField.Value = FloatValue penalty\<rparr>
            | None \<Rightarrow> config)
         else if paramKey = ''min_p'' then
           (case ParseFloat value of
              Some minP \<Rightarrow> addPrediction config
                \<lparr>ConfigField.Key = ''llm.prediction.minP'', ConfigField.Value = FloatValue minP\<rparr>
            | None \<Rightarrow> config)
         else if paramKey = ''num_ctx'' then
           (case Atoi value of
              Some ctx \<Rightarrow> addLoad config
                \<lparr>ConfigField.Key = ''llm.load.contextLength'', ConfigField.Value = IntValue ctx\<rparr>
            | None \<Rightarrow> config)
         else config)
      else config)"

text \<open>
  Go visits the keys of a map in an order it does not fix. The mapper takes that order
  as the argument \<open>keys\<close>: the keys of the parameter map, as the loop meets them.
\<close>

definition ConvertToLMStudioFormat ::
  "(string \<Rightarrow> 'f option) \<Rightarrow> string list \<Rightarrow> ParsedModelfile \<Rightarrow> error + 'f LMStudioConfig"
where
  "ConvertToLMStudioFormat ParseFloat keys parsed =
     (let config = \<lparr>PredictionConfig = \<lparr>PredictionConfig.Fields = []\<rparr>,
                    LoadModelConfig = \<lparr>LoadModelConfig.Fields = []\<rparr>\<rparr>;
          config = (if ParsedModelfile.Template parsed \<noteq> []
                    then addPrediction config (templateField parsed) else config)
      in Inr (foldl (mapParameter ParseFloat parsed) config keys))"

subsection \<open>The preset document\<close>

record ManualPromptTemplate =
  BeforeSystem :: string
  AfterSystem :: string
  BeforeUser :: string
  AfterUser :: string
  BeforeAssistant :: string
  AfterAssistant :: string

record ManualPromptTemplateValue =
  Type :: string
  StopStrings :: "string slice"
  ManualPromptTemplate :: ManualPromptTemplate

text \<open>The preset mapper stores a template object, a slice of strings or a string.\<close>

datatype preset_value =
    ManualValue ManualPromptTemplateValue
  | StringsValue "string slice"
  | StringValue string

record PresetField =
  Key :: string
  Value :: preset_value

record PresetOperation =
  Fields :: "PresetField list"

record PresetLoad =
  Fields :: "PresetField list"

record LMStudioPreset =
  Identifier :: string
  Name :: string
  Changed :: bool
  Operation :: PresetOperation
  Load :: PresetLoad

text \<open>\<^verbatim>\<open>strings.ReplaceAll\<close> where the old and the new text are one byte each.\<close>

definition ReplaceAll :: "string \<Rightarrow> char \<Rightarrow> char \<Rightarrow> string" where
  "ReplaceAll s old new = map (\<lambda>c. if c = old then new else c) s"

text \<open>
  \<^verbatim>\<open>strings.ToLower\<close> follows the case tables of Unicode; the mapper takes it as an
  argument.
\<close>

definition ConvertToLMStudioPreset ::
  "(string \<Rightarrow> string) \<Rightarrow> ParsedModelfile \<Rightarrow> string \<Rightarrow> error + LMStudioPreset"
where
  "ConvertToLMStudioPreset ToLower parsed modelName =
     (let identifier = ''@local:'' @ ToLower (ReplaceAll modelName CHR '' '' CHR ''-'');
          preset = \<lparr>Identifier = identifier, Name = modelName, Changed = True,
                    Operation = \<lparr>PresetOperation.Fields = []\<rparr>,
                    Load = \<lparr>PresetLoad.Fields = []\<rparr>\<rparr>
      in if ParsedModelfile.Template parsed = [] then Inr preset
         else
          (let template = ParsedModelfile.Template parsed;
               bosToken = extractBOSToken template;
               stopStrings = index (Parameters parsed) ''stop'';
               stopStrings = (if stopStrings = NilSlice then Slice [] else stopStrings);
               beforeSystem = (if Contains template ''<|system|>''
                               then bosToken @ ''<|system|>'' @ [CHR 0x0A] else []);
               afterSystem = [];
               beforeUser = (if Contains template ''<|user|>''
                             then ''<|user|>'' @ [CHR 0x0A] else []);
               afterUser = (if Contains template ''<|assistant|>''
                            then ''<|assistant|>'' @ [CHR 0x0A] else []);
               hasThinkTags = Contains template ''<think></think>'';
               afterUser = (if hasThinkTags then afterUser @ ''<think></think>'' @ [CHR 0x0A]
                            else afterUser);
               templateValue =
                 \<lparr>ManualPromptTemplateValue.Type = ''manual'',
                  ManualPromptTemplateValue.StopStrings = Slice [],
                  ManualPromptTemplate =
                    \<lparr>BeforeSystem = beforeSystem, AfterSystem = afterSystem,
                     BeforeUser = beforeUser, AfterUser = afterUser,
                     BeforeAssistant = [], AfterAssistant = []\<rparr>\<rparr>;
               fields = PresetOperation.Fields (Operation preset) @
                 [\<lparr>PresetField.Key = ''llm.prediction.promptTemplate'',
                   PresetField.Value = ManualValue templateValue\<rparr>];
               fields = fields @
                 [\<lparr>PresetField.Key = ''llm.prediction.stopStrings'',
                   PresetField.Value = StringsValue stopStrings\<rparr>];
               fields = (if System parsed \<noteq> [] \<and> \<not> hasThinkTags
                         then fields @
                           [\<lparr>PresetField.Key = ''llm.prediction.systemPrompt'',
                             PresetField.Value = StringValue (System parsed)\<rparr>]
                         else fields)
           in Inr (preset\<lparr>Operation := \<lparr>PresetOperation.Fields = fields\<rparr>\<rparr>)))"

section \<open>Notions used in the statements and proofs\<close>

text \<open>No match of the expression starts at any position of the string.\<close>

fun nomatch :: "re_item list \<Rightarrow> string \<Rightarrow> bool" where
  "nomatch re [] = True"
| "nomatch re (c # cs) = (match_items re (c # cs) = None \<and> nomatch re cs)"

text \<open>No literal of the items holds an opening brace.\<close>

fun brace_free :: "re_item list \<Rightarrow> bool" where
  "brace_free [] = True"
| "brace_free (Lit l # items) = (CHR ''{'' \<notin> set l \<and> brace_free items)"
| "brace_free (Star_s # items) = brace_free items"
| "brace_free (Plus_s # items) = brace_free items"

text \<open>The six replacements of the translator as a list, in the order of the source.\<close>

definition translationRules :: "(re_item list \<times> string) list" where
  "translationRules =
     [(reIfSystem, ''{% if system_message %}''),
      (reIfPrompt, ''{% if user_message %}''),
      (reEnd, ''{% endif %}''),
      (reSystem, ''{{ system_message }}''),
      (rePrompt, ''{{ user_message }}''),
      (reResponse, ''{{ model_response }}'')]"

definition rewrite :: "string \<Rightarrow> re_item list \<times> string \<Rightarrow> string" where
  "rewrite s rule = ReplaceAllString (fst rule) s (snd rule)"

text \<open>Neither a template nor a system prompt is being collected.\<close>

definition idle :: "parser_state \<Rightarrow> bool" where
  "idle st = (\<not> inTemplate st \<and> \<not> inSystem st)"

text \<open>The values collected so far for the parameter \<^verbatim>\<open>stop\<close>.\<close>

definition stops :: "parser_state \<Rightarrow> string list" where
  "stops st = elems (index (Parameters (parsedFile st)) ''stop'')"

text \<open>A line whose trimmed text opens a \<^verbatim>\<open>PARAMETER stop\<close> directive.\<close>

definition isStopLine :: "string \<Rightarrow> bool" where
  "isStopLine line = HasPrefix (TrimSpace line) ''PARAMETER stop ''"

text \<open>
  The first element of a list that satisfies a condition, the empty string when none
  does: the reading of ``first match wins, in list order''.
\<close>

definition firstMatch :: "(string \<Rightarrow> bool) \<Rightarrow> string list \<Rightarrow> string" where
  "firstMatch P tokens = (case find P tokens of None \<Rightarrow> [] | Some token \<Rightarrow> token)"

text \<open>
  The numeric parameters of the flat mapper: the name in the Modelfile, the key of
  the field in the document, and whether the value is read as an integer.
\<close>

definition numericParameters :: "(string \<times> string \<times> bool) list" where
  "numericParameters =
     [(''temperature'', ''llm.prediction.temperature'', False),
      (''top_p'', ''llm.prediction.topP'', False),
      (''top_k'', ''llm.prediction.topK'', True),
      (''repeat_penalty'', ''llm.prediction.repeatPenalty'', False),
      (''min_p'', ''llm.prediction.minP'', False),
      (''num_ctx'', ''llm.load.contextLength'', True)]"

text \<open>The keys of all the fields of a flat document, of both groups.\<close>

definition configKeys :: "'f LMStudioConfig \<Rightarrow> string list" where
  "configKeys config =
     map ConfigField.Key (PredictionConfig.Fields (PredictionConfig config)) @
     map ConfigField.Key (LoadModelConfig.Fields (LoadModelConfig config))"

text \<open>
  Two instances of the library functions that the mappers take as arguments, for the
  examples: a reader of plain decimal numbers (digits, then possibly a point and more
  digits; the result is the number without its point, and the count of digits after
  the point), and the change to lower case of the ASCII letters.
\<close>

definition parseDecimal :: "string \<Rightarrow> (int \<times> nat) option" where
  "parseDecimal s =
     (let whole = takeWhile isDigit s;
          rest = dropWhile isDigit s
      in if whole = [] then None
         else if rest = [] then Some (digitsValue whole, 0)
         else if hd rest = CHR ''.'' \<and> tl rest \<noteq> [] \<and> list_all isDigit (tl rest)
         then Some (digitsValue (whole @ tl rest), length (tl rest))
         else None)"

definition lowerASCII :: "string \<Rightarrow> string" where
  "lowerASCII s =
     map (\<lambda>c. if c \<in> set ''ABCDEFGHIJKLMNOPQRSTUVWXYZ''
               then char_of (of_char c + (32::nat)) else c) s"

section \<open>The translator applied twice\<close>

text \<open>
  Every one of the six expressions opens with two braces, and no literal after them
  holds a brace. Every replacement text opens with a brace. So replacing the matches of
  one expression leaves every brace-free stretch of the string as it was, and a match
  of another expression in the result was a match before.
\<close>

lemma match_items_suffix: "match_items items s = Some rest \<Longrightarrow> suffix rest s"
proof (induction items s rule: match_items.induct)
  case (1 s)
  then show ?case by simp
next
  case (2 l items s)
  then show ?case by (auto split: if_splits intro: suffix_drop suffix_order.trans)
next
  case (3 items s)
  then show ?case
    by (metis match_items.simps(3) suffix_dropWhile suffix_order.trans)
next
  case (4 items s)
  then show ?case
    by (auto split: list.splits if_splits intro: suffix_dropWhile suffix_order.trans suffix_ConsI)
qed

lemma match_open_length:
  assumes "match_items (Lit ''{{'' # body) (c # cs) = Some rest"
  shows "length rest \<le> length cs"
proof -
  from assms have "match_items body (drop 2 (c # cs)) = Some rest"
    by (simp split: if_splits)
  then have "suffix rest (drop 2 (c # cs))" by (rule match_items_suffix)
  then have "length rest \<le> length (drop 2 (c # cs))" by (rule suffix_length_le)
  then show ?thesis by simp
qed

lemma Replace_open_Cons:
  "ReplaceAllString (Lit ''{{'' # body) (c # cs) repl =
     (case match_items (Lit ''{{'' # body) (c # cs) of
        None \<Rightarrow> c # ReplaceAllString (Lit ''{{'' # body) cs repl
      | Some rest \<Rightarrow> repl @ ReplaceAllString (Lit ''{{'' # body) rest repl)"
  using match_open_length [of body c cs]
  by (auto split: option.splits simp del: match_items.simps)

lemma Replace_nomatch: "nomatch re s \<Longrightarrow> ReplaceAllString re s repl = s"
  by (induction s) auto

lemma nomatch_suffix: "nomatch re s \<Longrightarrow> suffix t s \<Longrightarrow> nomatch re t"
proof (induction s)
  case Nil
  then show ?case by simp
next
  case (Cons c cs)
  then show ?case by (auto simp: suffix_Cons)
qed

lemma Replace_other:
  "c \<noteq> CHR ''{'' \<Longrightarrow>
   ReplaceAllString (Lit ''{{'' # body) (c # cs) repl = c # ReplaceAllString (Lit ''{{'' # body) cs repl"
  by simp

lemma Replace_brace:
  "\<exists>y. ReplaceAllString (Lit ''{{'' # body) (CHR ''{'' # cs) (CHR ''{'' # r) = CHR ''{'' # y"
  by (simp only: Replace_open_Cons split: option.split) simp

lemma is_s_brace: "\<not> is_s CHR ''{''"
  by (simp add: is_s_def)

lemma Replace_dropWhile:
  "dropWhile is_s (ReplaceAllString (Lit ''{{'' # body) s (CHR ''{'' # r)) =
   ReplaceAllString (Lit ''{{'' # body) (dropWhile is_s s) (CHR ''{'' # r)"
proof (induction s)
  case Nil
  then show ?case by simp
next
  case (Cons c cs)
  show ?case
  proof (cases "is_s c")
    case True
    then have "c \<noteq> CHR ''{''" using is_s_brace by auto
    with True Cons show ?thesis by (simp add: Replace_other del: ReplaceAllString.simps)
  next
    case False
    show ?thesis
    proof (cases "c = CHR ''{''")
      case True
      then obtain y where "ReplaceAllString (Lit ''{{'' # body) (c # cs) (CHR ''{'' # r) = CHR ''{'' # y"
        using Replace_brace by blast
      with False True show ?thesis by (simp add: is_s_brace del: ReplaceAllString.simps)
    next
      case notbrace: False
      with False show ?thesis by (simp add: Replace_other del: ReplaceAllString.simps)
    qed
  qed
qed

lemma Replace_prefix:
  "CHR ''{'' \<notin> set l \<Longrightarrow>
   prefix l (ReplaceAllString (Lit ''{{'' # body) s (CHR ''{'' # r)) = prefix l s"
proof (induction l arbitrary: s)
  case Nil
  then show ?case by simp
next
  case (Cons a l)
  show ?case
  proof (cases s)
    case Nil
    then show ?thesis by simp
  next
    case (Cons c cs)
    show ?thesis
    proof (cases "c = CHR ''{''")
      case True
      then obtain y where "ReplaceAllString (Lit ''{{'' # body) (c # cs) (CHR ''{'' # r) = CHR ''{'' # y"
        using Replace_brace by blast
      with True Cons Cons.prems show ?thesis by (auto simp del: ReplaceAllString.simps)
    next
      case False
      with Cons Cons.prems Cons.IH [of cs] show ?thesis
        by (simp add: Replace_other del: ReplaceAllString.simps)
    qed
  qed
qed

lemma Replace_drop:
  "CHR ''{'' \<notin> set l \<Longrightarrow> prefix l s \<Longrightarrow>
   drop (length l) (ReplaceAllString (Lit ''{{'' # body) s (CHR ''{'' # r)) =
   ReplaceAllString (Lit ''{{'' # body) (drop (length l) s) (CHR ''{'' # r)"
proof (induction l arbitrary: s)
  case Nil
  then show ?case by simp
next
  case (Cons a l)
  then obtain cs where s: "s = a # cs" and p: "prefix l cs"
    by (cases s) auto
  from Cons.prems have "a \<noteq> CHR ''{''" by auto
  with s p Cons show ?case
    by (simp add: Replace_other del: ReplaceAllString.simps)
qed

lemma match_items_Replace:
  "brace_free items \<Longrightarrow>
   match_items items (ReplaceAllString (Lit ''{{'' # body) s (CHR ''{'' # r)) =
   map_option (\<lambda>t. ReplaceAllString (Lit ''{{'' # body) t (CHR ''{'' # r)) (match_items items s)"
proof (induction items s rule: match_items.induct)
  case (1 s)
  then show ?case by simp
next
  case (2 l items s)
  then show ?case by (simp add: Replace_prefix Replace_drop del: ReplaceAllString.simps)
next
  case (3 items s)
  then show ?case by (simp add: Replace_dropWhile del: ReplaceAllString.simps)
next
  case (4 items s)
  show ?case
  proof (cases s)
    case Nil
    then show ?thesis by simp
  next
    case (Cons c cs)
    show ?thesis
    proof (cases "is_s c")
      case True
      then have "c \<noteq> CHR ''{''" using is_s_brace by auto
      with True Cons 4 show ?thesis
        by (simp add: Replace_other Replace_dropWhile del: ReplaceAllString.simps)
    next
      case False
      show ?thesis
      proof (cases "c = CHR ''{''")
        case True
        then obtain y where "ReplaceAllString (Lit ''{{'' # body) (c # cs) (CHR ''{'' # r) = CHR ''{'' # y"
          using Replace_brace by blast
        with False True Cons show ?thesis by (simp add: is_s_brace del: ReplaceAllString.simps)
      next
        case notbrace: False
        with False Cons show ?thesis by (simp add: Replace_other del: ReplaceAllString.simps)
      qed
    qed
  qed
qed


lemma match_open_Replace:
  assumes bf: "brace_free bp"
    and inert: "\<And>X. match_items bp (r @ X) = None"
    and m: "match_items (Lit ''{{'' # bp) (c # ReplaceAllString (Lit ''{{'' # bq) cs (CHR ''{'' # r)) \<noteq> None"
  shows "match_items (Lit ''{{'' # bp) (c # cs) \<noteq> None"
proof -
  let ?R = "\<lambda>t. ReplaceAllString (Lit ''{{'' # bq) t (CHR ''{'' # r)"
  from m obtain y where c: "c = CHR ''{''" and y: "?R cs = CHR ''{'' # y"
    and my: "match_items bp y \<noteq> None"
    by (cases "?R cs") (auto split: if_splits simp del: ReplaceAllString.simps)
  from y obtain d ds where cs: "cs = d # ds" by (cases cs) auto
  have d: "d = CHR ''{''"
  proof (rule ccontr)
    assume "d \<noteq> CHR ''{''"
    with y cs show False by (simp add: Replace_other del: ReplaceAllString.simps)
  qed
  show ?thesis
  proof (cases "match_items (Lit ''{{'' # bq) (d # ds)")
    case None
    with y cs have "y = ?R ds" by (simp add: Replace_open_Cons d del: match_items.simps ReplaceAllString.simps)
    with my bf have "match_items bp ds \<noteq> None"
      by (simp add: match_items_Replace del: ReplaceAllString.simps)
    with c cs d show ?thesis by simp
  next
    case (Some rest)
    with y cs have "y = r @ ?R rest"
      by (simp add: Replace_open_Cons del: match_items.simps ReplaceAllString.simps)
    with my inert show ?thesis by simp
  qed
qed

lemma nomatch_Replace:
  assumes bf: "brace_free bp"
    and inert: "\<And>X. match_items bp (r @ X) = None"
    and inside: "\<And>X. nomatch (Lit ''{{'' # bp) X \<Longrightarrow> nomatch (Lit ''{{'' # bp) (CHR ''{'' # r @ X)"
    and s: "nomatch (Lit ''{{'' # bp) s \<or> bq = bp"
  shows "nomatch (Lit ''{{'' # bp) (ReplaceAllString (Lit ''{{'' # bq) s (CHR ''{'' # r))"
  using s
proof (induction s rule: length_induct)
  case (1 s)
  let ?p = "Lit ''{{'' # bp" and ?q = "Lit ''{{'' # bq"
  let ?R = "\<lambda>t. ReplaceAllString ?q t (CHR ''{'' # r)"
  show ?case
  proof (cases s)
    case Nil
    then show ?thesis by simp
  next
    case (Cons c cs)
    show ?thesis
    proof (cases "match_items ?q (c # cs)")
      case None
      have R: "?R s = c # ?R cs"
        using None Cons by (simp add: Replace_open_Cons del: match_items.simps ReplaceAllString.simps)
      have "match_items ?p (c # cs) = None"
        using "1.prems" None Cons by auto
      then have head: "match_items ?p (c # ?R cs) = None"
        using match_open_Replace [OF bf inert, of c bq cs] by blast
      have "nomatch ?p cs \<or> bq = bp" using "1.prems" Cons by auto
      then have "nomatch ?p (?R cs)" using "1.IH" Cons by auto
      with head R show ?thesis by (simp del: match_items.simps ReplaceAllString.simps)
    next
      case (Some rest)
      have R: "?R s = CHR ''{'' # r @ ?R rest"
        using Some Cons by (simp add: Replace_open_Cons del: match_items.simps ReplaceAllString.simps)
      have suf: "suffix rest s" using Some Cons match_items_suffix by blast
      have len: "length rest < length s" using match_open_length [OF Some] Cons by simp
      have "nomatch ?p rest \<or> bq = bp" using "1.prems" suf nomatch_suffix by blast
      then have "nomatch ?p (?R rest)" using "1.IH" len by auto
      then show ?thesis using inside R by (simp del: match_items.simps ReplaceAllString.simps nomatch.simps)
    qed
  qed
qed


lemma convert_foldl: "convertGoTemplateToJinja s = foldl rewrite s translationRules"
  by (simp add: convertGoTemplateToJinja_def translationRules_def rewrite_def Let_def)

lemma rewrite_nomatch:
  assumes "rule \<in> set translationRules" and "p \<in> fst ` set translationRules"
    and "nomatch p s \<or> fst rule = p"
  shows "nomatch p (rewrite s rule)"
  using assms
  unfolding translationRules_def rewrite_def reIfSystem_def reIfPrompt_def reEnd_def
    reSystem_def rePrompt_def reResponse_def
  apply (simp del: match_items.simps ReplaceAllString.simps nomatch.simps)
  apply (elim disjE conjE)
  apply (simp_all del: match_items.simps ReplaceAllString.simps nomatch.simps)
  apply (rule nomatch_Replace; simp add: is_s_def)+
  done


lemma foldl_rewrite_nomatch:
  assumes "set rs \<subseteq> set translationRules" and "p \<in> fst ` set translationRules"
    and "nomatch p s \<or> p \<in> fst ` set rs"
  shows "nomatch p (foldl rewrite s rs)"
  using assms
proof (induction rs arbitrary: s)
  case Nil
  then show ?case by simp
next
  case (Cons rule rs)
  have "nomatch p (rewrite s rule) \<or> p \<in> fst ` set rs"
  proof (cases "nomatch p s \<or> fst rule = p")
    case True
    with Cons.prems rewrite_nomatch [of rule p s] show ?thesis by simp
  next
    case False
    with Cons.prems show ?thesis by auto
  qed
  with Cons show ?case by simp
qed

lemma foldl_rewrite_fixed:
  "list_all (\<lambda>rule. nomatch (fst rule) s) rs \<Longrightarrow> foldl rewrite s rs = s"
  by (induction rs) (simp_all add: rewrite_def Replace_nomatch)

lemma convert_nomatch:
  "list_all (\<lambda>rule. nomatch (fst rule) (convertGoTemplateToJinja s)) translationRules"
  unfolding list_all_iff convert_foldl
  by (auto intro!: foldl_rewrite_nomatch)

text \<open>
  Claim C4. The template translator is idempotent: translating the output of the
  translator again gives that output back, for every input string. (By
  \<open>convert_nomatch\<close>, none of the six expressions has a match in a translated text.)
\<close>

theorem convertGoTemplateToJinja_idempotent:
  "convertGoTemplateToJinja (convertGoTemplateToJinja s) = convertGoTemplateToJinja s"
proof -
  have "foldl rewrite (convertGoTemplateToJinja s) translationRules = convertGoTemplateToJinja s"
    using convert_nomatch by (rule foldl_rewrite_fixed)
  then show ?thesis by (simp add: convert_foldl)
qed

section \<open>The translator on the examples of the specification\<close>

text \<open>
  Claim C5. The translator maps the two example inputs of the specification exactly:
  the template \<^verbatim>\<open>{{ .Prompt }}\<close> becomes \<^verbatim>\<open>{{ user_message }}\<close>, and the template
  with a conditional on the system variable becomes the same text with the conditional
  opened by \<^verbatim>\<open>{% if system_message %}\<close>, closed by \<^verbatim>\<open>{% endif %}\<close>, and both
  variables renamed.
\<close>

theorem convertGoTemplateToJinja_examples:
  "convertGoTemplateToJinja ''{{ .Prompt }}'' = ''{{ user_message }}'' \<and>
   convertGoTemplateToJinja
     ''{{ if .System }}System: {{ .System }}{{ end }} User: {{ .Prompt }}'' =
   ''{% if system_message %}System: {{ system_message }}{% endif %} User: {{ user_message }}''"
  by code_simp

section \<open>The directive parser\<close>

text \<open>
  Claim C3. For every input string, empty, malformed or with a directive that is never
  closed, \<^verbatim>\<open>ParseOllamaModelfile\<close> returns a parsed Modelfile and no error.
\<close>

theorem ParseOllamaModelfile_never_fails:
  "\<exists>parsed. ParseOllamaModelfile content = Inr parsed"
  by (simp add: ParseOllamaModelfile_def Let_def)

text \<open>
  What it returns where directives are missing or not closed: the empty fields for the
  empty input and for a text without directives, and the lines collected so far for a
  template whose closing quotes never come.
\<close>

lemma ParseOllamaModelfile_partial:
  "ParseOllamaModelfile [] = Inr emptyParsed"
  "parsedTemplate (ParseOllamaModelfile ''FROM llama3'') = Some []"
  "parsedSystem (ParseOllamaModelfile ''FROM llama3'') = Some []"
  "parameterValues (ParseOllamaModelfile ''FROM llama3'') ''stop'' = Some NilSlice"
  "parsedTemplate (ParseOllamaModelfile (''TEMPLATE \"\"\"abc'' @ [CHR 0x0A] @ ''def'')) =
     Some (''abc'' @ [CHR 0x0A] @ ''def'')"
  by (simp add: ParseOllamaModelfile_def) code_simp+

subsection \<open>The values of a repeated parameter\<close>

lemma SplitN2_key:
  assumes "length (SplitN2 s c) = 2"
  shows "s = (SplitN2 s c ! 0) @ c # (SplitN2 s c ! 1)"
proof -
  from assms have c: "c \<in> set s" by (auto simp: SplitN2_def split: if_splits)
  then have "dropWhile (\<lambda>x. x \<noteq> c) s \<noteq> []" by (simp)
  moreover have "hd (dropWhile (\<lambda>x. x \<noteq> c) s) = c"
    using hd_dropWhile [of "\<lambda>x. x \<noteq> c" s] calculation by auto
  ultimately have "dropWhile (\<lambda>x. x \<noteq> c) s = c # tl (dropWhile (\<lambda>x. x \<noteq> c) s)"
    by (cases "dropWhile (\<lambda>x. x \<noteq> c) s") auto
  then have "s = takeWhile (\<lambda>x. x \<noteq> c) s @ c # tl (dropWhile (\<lambda>x. x \<noteq> c) s)"
    by (metis takeWhile_dropWhile_id)
  with c show ?thesis by (simp add: SplitN2_def)
qed

lemma TrimPrefix_eq: "HasPrefix s p \<Longrightarrow> s = p @ TrimPrefix s p"
  by (auto simp: HasPrefix_def TrimPrefix_def prefix_def)

lemma parameterDirective_stops_other:
  assumes "HasPrefix trimmed ''PARAMETER ''" and "\<not> HasPrefix trimmed ''PARAMETER stop ''"
  shows "stops (parameterDirective st trimmed) = stops st"
proof (cases "length (SplitN2 (TrimPrefix trimmed ''PARAMETER '') CHR '' '') = 2")
  case False
  then show ?thesis by (simp add: parameterDirective_def Let_def)
next
  case True
  let ?ps = "TrimPrefix trimmed ''PARAMETER ''"
  let ?parts = "SplitN2 ?ps CHR '' ''"
  have "?parts ! 0 \<noteq> ''stop''"
  proof
    assume k: "?parts ! 0 = ''stop''"
    have "?ps = ''stop'' @ CHR '' '' # (?parts ! 1)"
      using SplitN2_key [OF True] k by simp
    with TrimPrefix_eq [OF assms(1)] have "trimmed = ''PARAMETER stop '' @ (?parts ! 1)"
      by simp
    then have "HasPrefix trimmed ''PARAMETER stop ''"
      unfolding HasPrefix_def by (metis prefixI)
    with assms(2) show False by simp
  qed
  with True show ?thesis
    by (simp add: parameterDirective_def Let_def stops_def index_def)
qed

lemma parameterDirective_stops_mono:
  "\<exists>e. stops (parameterDirective st trimmed) = stops st @ e"
  by (simp add: parameterDirective_def Let_def stops_def index_def append_def)

lemma parameterDirective_idle: "idle (parameterDirective st trimmed) = idle st"
  by (simp add: parameterDirective_def Let_def idle_def)

lemma templateDirective_stops: "stops (templateDirective st trimmed) = stops st"
  by (simp add: templateDirective_def Let_def stops_def)

lemma templateCapture_stops: "stops (templateCapture st line trimmed) = stops st"
  by (simp add: templateCapture_def Let_def stops_def)

lemma systemDirective_stops: "stops (systemDirective st trimmed) = stops st"
  by (simp add: systemDirective_def Let_def stops_def)

lemma systemCapture_stops: "stops (systemCapture st line trimmed) = stops st"
  by (simp add: systemCapture_def Let_def stops_def)

lemmas branch_stops =
  templateDirective_stops templateCapture_stops systemDirective_stops systemCapture_stops

lemma parseLine_stops_other: "\<not> isStopLine line \<Longrightarrow> stops (parseLine st line) = stops st"
  by (simp add: parseLine_def Let_def branch_stops isStopLine_def parameterDirective_stops_other)

lemma parseLine_stops_mono: "\<exists>e. stops (parseLine st line) = stops st @ e"
  using parameterDirective_stops_mono [of st "TrimSpace line"]
  by (simp add: parseLine_def Let_def branch_stops)

lemma Trim_quoted:
  assumes "CHR 0x22 \<notin> set a"
  shows "Trim (CHR 0x22 # a @ [CHR 0x22]) [CHR 0x22] = a"
proof -
  have l: "dropWhile (\<lambda>c. c \<in> set [CHR 0x22]) (CHR 0x22 # a @ [CHR 0x22]) =
      dropWhile (\<lambda>c. c \<in> set [CHR 0x22]) (a @ [CHR 0x22])"
    by simp
  show ?thesis
  proof (cases a)
    case Nil
    then show ?thesis by (simp add: Trim_def)
  next
    case (Cons x xs)
    with assms have x: "x \<noteq> CHR 0x22" by auto
    from Cons obtain y ys where r: "rev a = y # ys" by (cases "rev a") auto
    then have "y = last a" using hd_rev [of a] Cons by (metis list.sel(1))
    moreover from Cons assms have "last a \<noteq> CHR 0x22" by (metis last_in_set list.distinct(1))
    ultimately have "dropWhile (\<lambda>c. c \<in> set [CHR 0x22]) (y # ys) = y # ys" by simp
    then have "dropWhile (\<lambda>c. c \<in> set [CHR 0x22]) (rev a) = rev a" by (simp only: r)
    with x Cons show ?thesis by (simp add: Trim_def)
  qed
qed

lemma parseLine_stop_value:
  assumes "idle st" and "TrimSpace line = ''PARAMETER stop \"'' @ a @ ''\"''"
    and "CHR 0x22 \<notin> set a"
  shows "stops (parseLine st line) = stops st @ [a]" and "idle (parseLine st line)"
proof -
  let ?t = "''PARAMETER stop \"'' @ a @ ''\"''"
  have pd: "parseLine st line = parameterDirective st ?t"
    using assms(1,2) by (simp add: parseLine_def Let_def idle_def HasPrefix_def)
  have sp: "SplitN2 (TrimPrefix ?t ''PARAMETER '') CHR '' '' = [''stop'', CHR 0x22 # a @ [CHR 0x22]]"
    by (simp add: SplitN2_def TrimPrefix_def HasPrefix_def)
  show "stops (parseLine st line) = stops st @ [a]"
    unfolding pd using sp Trim_quoted [OF assms(3)]
    by (simp add: parameterDirective_def Let_def stops_def index_def append_def)
  show "idle (parseLine st line)"
    unfolding pd using assms(1) by (simp add: parameterDirective_idle)
qed

lemma foldl_stops_other:
  "\<forall>line \<in> set ls. \<not> isStopLine line \<Longrightarrow> stops (foldl parseLine st ls) = stops st"
  by (induction ls arbitrary: st) (simp_all add: parseLine_stops_other)

lemma foldl_stops_mono: "\<exists>e. stops (foldl parseLine st ls) = stops st @ e"
proof (induction ls arbitrary: st)
  case Nil
  then show ?case by simp
next
  case (Cons l ls)
  obtain e1 where "stops (parseLine st l) = stops st @ e1"
    using parseLine_stops_mono by blast
  moreover obtain e2 where "stops (foldl parseLine (parseLine st l) ls) = stops (parseLine st l) @ e2"
    using Cons by blast
  ultimately show ?case by simp
qed

lemma finish_Parameters: "Parameters (finish st) = Parameters (parsedFile st)"
  by (simp add: finish_def Let_def)

lemma stops_initialState: "stops initialState = []"
  by (simp add: stops_def initialState_def emptyParsed_def index_def)

text \<open>
  Claim C7, as stated: whenever the source holds the line \<^verbatim>\<open>PARAMETER stop "A"\<close> and,
  further down, the line \<^verbatim>\<open>PARAMETER stop "B"\<close>, both outside a capture, the parameter
  map holds the list of \<^verbatim>\<open>A\<close> and \<^verbatim>\<open>B\<close> under \<^verbatim>\<open>stop\<close>. A third \<^verbatim>\<open>stop\<close> line between
  the two shows that the list can hold more: here it is \<^verbatim>\<open>A\<close>, \<^verbatim>\<open>C\<close>, \<^verbatim>\<open>B\<close>.
\<close>

theorem ParseOllamaModelfile_stop_counterexample:
  "parameterValues
     (ParseOllamaModelfile
        (''PARAMETER stop \"A\"'' @ [CHR 0x0A] @ ''PARAMETER stop \"C\"'' @ [CHR 0x0A] @
         ''PARAMETER stop \"B\"'')) ''stop'' = Some (Slice [''A'', ''C'', ''B''])"
  by code_simp

text \<open>
  Claim C7, amended. Let the lines of the source be \<open>pre\<close>, then a line that trims to
  \<^verbatim>\<open>PARAMETER stop "A"\<close>, then \<open>mid\<close>, then a line that trims to \<^verbatim>\<open>PARAMETER stop "B"\<close>,
  then \<open>post\<close>, with no capture open when either of the two lines is read; \<^verbatim>\<open>A\<close> and
  \<^verbatim>\<open>B\<close> stand for any two texts without a double quote. Then the parser returns a
  result whose list under \<^verbatim>\<open>stop\<close> holds \<^verbatim>\<open>A\<close> before \<^verbatim>\<open>B\<close>; and when no other line
  opens a \<^verbatim>\<open>PARAMETER stop\<close> directive, the list is exactly \<^verbatim>\<open>A\<close>, \<^verbatim>\<open>B\<close>.
\<close>

theorem ParseOllamaModelfile_stop_order:
  assumes lines: "Split content (CHR 0x0A) = pre @ [lineA] @ mid @ [lineB] @ post"
    and A: "TrimSpace lineA = ''PARAMETER stop \"'' @ a @ ''\"''"
    and B: "TrimSpace lineB = ''PARAMETER stop \"'' @ b @ ''\"''"
    and qa: "CHR 0x22 \<notin> set a" and qb: "CHR 0x22 \<notin> set b"
    and idleA: "idle (foldl parseLine initialState pre)"
    and idleB: "idle (foldl parseLine initialState (pre @ [lineA] @ mid))"
  shows "\<exists>p xs ys zs. ParseOllamaModelfile content = Inr p \<and>
           elems (index (Parameters p) ''stop'') = xs @ [a] @ ys @ [b] @ zs \<and>
           ((\<forall>line \<in> set (pre @ mid @ post). \<not> isStopLine line) \<longrightarrow>
              xs = [] \<and> ys = [] \<and> zs = [])"
proof -
  let ?s0 = "foldl parseLine initialState pre"
  let ?s1 = "parseLine ?s0 lineA"
  let ?s2 = "foldl parseLine ?s1 mid"
  let ?s3 = "parseLine ?s2 lineB"
  let ?s4 = "foldl parseLine ?s3 post"
  have ne: "content \<noteq> []"
  proof
    assume "content = []"
    with lines have "length (pre @ [lineA] @ mid @ [lineB] @ post) = length [[] :: string]"
      by simp
    then show False by simp
  qed
  have run: "foldl parseLine initialState (Split content (CHR 0x0A)) = ?s4"
    by (simp add: lines)
  have s1: "stops ?s1 = stops ?s0 @ [a]"
    using idleA A qa by (rule parseLine_stop_value)
  have "idle ?s2" using idleB by simp
  then have s3: "stops ?s3 = stops ?s2 @ [b]"
    using B qb by (rule parseLine_stop_value)
  obtain ys where s2: "stops ?s2 = stops ?s1 @ ys" using foldl_stops_mono by blast
  obtain zs where s4: "stops ?s4 = stops ?s3 @ zs" using foldl_stops_mono by blast
  have all: "stops ?s4 = stops ?s0 @ [a] @ ys @ [b] @ zs"
    using s1 s2 s3 s4 by simp
  have exact: "stops ?s0 = [] \<and> ys = [] \<and> zs = []"
    if other: "\<forall>line \<in> set (pre @ mid @ post). \<not> isStopLine line"
  proof -
    from other have "stops ?s0 = stops initialState" by (intro foldl_stops_other) simp
    moreover from other have "stops ?s2 = stops ?s1" by (intro foldl_stops_other) simp
    moreover from other have "stops ?s4 = stops ?s3" by (intro foldl_stops_other) simp
    ultimately show ?thesis using s2 s4 by (simp add: stops_initialState)
  qed
  have "ParseOllamaModelfile content = Inr (finish ?s4)"
    using ne run by (simp add: ParseOllamaModelfile_def Let_def)
  moreover have "elems (index (Parameters (finish ?s4)) ''stop'') =
      stops ?s0 @ [a] @ ys @ [b] @ zs"
    using all by (simp add: finish_Parameters stops_def)
  ultimately show ?thesis using exact by blast
qed

theorem ParseOllamaModelfile_stop_order_witness:
  "\<exists>p. ParseOllamaModelfile
          (''PARAMETER stop \"A\"'' @ [CHR 0x0A] @ ''PARAMETER temperature 0.7'' @ [CHR 0x0A] @
           '' PARAMETER stop \"B\" '') = Inr p \<and>
        elems (index (Parameters p) ''stop'') = [''A'', ''B'']"
proof -
  let ?content = "''PARAMETER stop \"A\"'' @ [CHR 0x0A] @ ''PARAMETER temperature 0.7'' @
           [CHR 0x0A] @ '' PARAMETER stop \"B\" ''"
  have lines: "Split ?content (CHR 0x0A) =
      [] @ [''PARAMETER stop \"A\"''] @ [''PARAMETER temperature 0.7''] @
      ['' PARAMETER stop \"B\" ''] @ []"
    by code_simp
  have A: "TrimSpace ''PARAMETER stop \"A\"'' = ''PARAMETER stop \"'' @ ''A'' @ ''\"''"
    by code_simp
  have B: "TrimSpace '' PARAMETER stop \"B\" '' = ''PARAMETER stop \"'' @ ''B'' @ ''\"''"
    by code_simp
  have qa: "CHR 0x22 \<notin> set ''A''" and qb: "CHR 0x22 \<notin> set ''B''" by simp_all
  have idleA: "idle (foldl parseLine initialState [])" by code_simp
  have idleB: "idle (foldl parseLine initialState
      ([] @ [''PARAMETER stop \"A\"''] @ [''PARAMETER temperature 0.7'']))"
    by code_simp
  have other: "\<forall>line \<in> set ([] @ [''PARAMETER temperature 0.7''] @ []). \<not> isStopLine line"
    by code_simp
  from ParseOllamaModelfile_stop_order [OF lines A B qa qb idleA idleB] other
  show ?thesis by fastforce
qed

subsection \<open>The line that closes a capture\<close>

text \<open>
  Claim C9. The branch that closes a capture tests the trimmed line for the closing
  quotes and then cuts them from the line as it was read. When white space follows the
  closing quotes the cut does nothing, and the quotes stay in the captured text: the
  template written over two lines as \<^verbatim>\<open>"""a\<close> and \<^verbatim>\<open>b"""\<close>, with a space after the
  last quote, is parsed to \<^verbatim>\<open>a\<close>, a line feed, and \<^verbatim>\<open>b"""\<close> with its space.
\<close>

theorem template_terminator_kept:
  "parsedTemplate (ParseOllamaModelfile (''TEMPLATE \"\"\"a'' @ [CHR 0x0A] @ ''b\"\"\" '')) =
   Some (''a'' @ [CHR 0x0A] @ ''b\"\"\" '')"
  by code_simp

section \<open>The flat document\<close>

lemma Contains_sublist: "Contains s sub = sublist sub s"
  by (induction s) (simp_all add: sublist_Cons_right)

lemma firstWithPrefix_firstMatch:
  "firstWithPrefix template tokens = firstMatch (\<lambda>token. prefix token template) tokens"
  by (induction tokens) (simp_all add: firstMatch_def HasPrefix_def)

lemma firstContained_firstMatch:
  "firstContained template tokens = firstMatch (\<lambda>token. sublist token template) tokens"
  by (induction tokens) (simp_all add: firstMatch_def Contains_sublist)

lemma addPrediction_fields:
  "PredictionConfig.Fields (PredictionConfig (addPrediction config field)) =
   PredictionConfig.Fields (PredictionConfig config) @ [field]"
  "LoadModelConfig.Fields (LoadModelConfig (addPrediction config field)) =
   LoadModelConfig.Fields (LoadModelConfig config)"
  by (simp_all add: addPrediction_def)

lemma addLoad_fields:
  "PredictionConfig.Fields (PredictionConfig (addLoad config field)) =
   PredictionConfig.Fields (PredictionConfig config)"
  "LoadModelConfig.Fields (LoadModelConfig (addLoad config field)) =
   LoadModelConfig.Fields (LoadModelConfig config) @ [field]"
  by (simp_all add: addLoad_def)

lemma mapParameter_prefix:
  "prefix (PredictionConfig.Fields (PredictionConfig config))
     (PredictionConfig.Fields (PredictionConfig (mapParameter ParseFloat parsed config paramKey)))"
  by (simp add: mapParameter_def Let_def addPrediction_fields addLoad_fields split: option.split)

lemma foldl_mapParameter_prefix:
  "prefix (PredictionConfig.Fields (PredictionConfig config))
     (PredictionConfig.Fields (PredictionConfig (foldl (mapParameter ParseFloat parsed) config keys)))"
proof (induction keys arbitrary: config)
  case Nil
  then show ?case by simp
next
  case (Cons k keys)
  then show ?case
    using mapParameter_prefix prefix_order.trans by (metis foldl_Cons)
qed

lemma flat_template_first:
  assumes "ParsedModelfile.Template parsed \<noteq> []"
  shows "\<exists>config rest. ConvertToLMStudioFormat ParseFloat keys parsed = Inr config \<and>
           PredictionConfig.Fields (PredictionConfig config) = templateField parsed # rest"
proof -
  let ?c0 = "addPrediction \<lparr>PredictionConfig = \<lparr>PredictionConfig.Fields = []\<rparr>,
                    LoadModelConfig = \<lparr>LoadModelConfig.Fields = []\<rparr>\<rparr> (templateField parsed)"
  have "prefix (PredictionConfig.Fields (PredictionConfig ?c0))
     (PredictionConfig.Fields (PredictionConfig (foldl (mapParameter ParseFloat parsed) ?c0 keys)))"
    by (rule foldl_mapParameter_prefix)
  then obtain rest where
    "PredictionConfig.Fields (PredictionConfig (foldl (mapParameter ParseFloat parsed) ?c0 keys)) =
     templateField parsed # rest"
    by (auto simp: addPrediction_fields prefix_def)
  with assms show ?thesis by (simp add: ConvertToLMStudioFormat_def Let_def)
qed

lemma templateField_tokens:
  "\<exists>tv. (templateField parsed :: 'f ConfigField) =
          \<lparr>ConfigField.Key = ''llm.prediction.promptTemplate'', ConfigField.Value = TemplateValue tv\<rparr> \<and>
        BosToken (JinjaPromptTemplate tv) = extractBOSToken (ParsedModelfile.Template parsed) \<and>
        EosToken (JinjaPromptTemplate tv) = extractEOSToken (ParsedModelfile.Template parsed) \<and>
        JinjaPromptTemplate.StopStrings tv = index (Parameters parsed) ''stop''"
  by (simp add: templateField_def Let_def)

text \<open>
  Claim C6. For a template that is not empty, the first field of the prediction group
  is the template object, and its start-of-sequence token is the first of
  \<^verbatim>\<open>[gMASK]\<close>, \<^verbatim>\<open><s>\<close>, \<^verbatim>\<open><|begin_of_text|>\<close>, \<^verbatim>\<open><|im_start|>\<close> that the template begins
  with, its end-of-sequence token the first of \<^verbatim>\<open><|endoftext|>\<close>, \<^verbatim>\<open></s>\<close>,
  \<^verbatim>\<open><|end_of_text|>\<close>, \<^verbatim>\<open><|im_end|>\<close>, \<^verbatim>\<open><|user|>\<close> that occurs in the template; each
  is the empty string when there is none. So a template that holds \<^verbatim>\<open><|user|>\<close> and
  none of the four end markers has the role marker \<^verbatim>\<open><|user|>\<close> as its end-of-sequence
  token.
\<close>

theorem flat_mapper_tokens:
  assumes "ParsedModelfile.Template parsed \<noteq> []"
  shows "\<exists>config tv rest.
           ConvertToLMStudioFormat ParseFloat keys parsed = Inr config \<and>
           PredictionConfig.Fields (PredictionConfig config) =
             \<lparr>ConfigField.Key = ''llm.prediction.promptTemplate'',
              ConfigField.Value = TemplateValue tv\<rparr> # rest \<and>
           BosToken (JinjaPromptTemplate tv) =
             firstMatch (\<lambda>token. prefix token (ParsedModelfile.Template parsed))
               [''[gMASK]'', ''<s>'', ''<|begin_of_text|>'', ''<|im_start|>''] \<and>
           EosToken (JinjaPromptTemplate tv) =
             firstMatch (\<lambda>token. sublist token (ParsedModelfile.Template parsed))
               [''<|endoftext|>'', ''</s>'', ''<|end_of_text|>'', ''<|im_end|>'', ''<|user|>''] \<and>
           (sublist ''<|user|>'' (ParsedModelfile.Template parsed) \<and>
            \<not> sublist ''<|endoftext|>'' (ParsedModelfile.Template parsed) \<and>
            \<not> sublist ''</s>'' (ParsedModelfile.Template parsed) \<and>
            \<not> sublist ''<|end_of_text|>'' (ParsedModelfile.Template parsed) \<and>
            \<not> sublist ''<|im_end|>'' (ParsedModelfile.Template parsed)
            \<longrightarrow> EosToken (JinjaPromptTemplate tv) = ''<|user|>'')"
proof -
  obtain config rest where c: "ConvertToLMStudioFormat ParseFloat keys parsed = Inr config"
    and f: "PredictionConfig.Fields (PredictionConfig config) = templateField parsed # rest"
    using flat_template_first [OF assms] by blast
  obtain tv where tv: "(templateField parsed :: 'a ConfigField) =
          \<lparr>ConfigField.Key = ''llm.prediction.promptTemplate'', ConfigField.Value = TemplateValue tv\<rparr>"
    and bos: "BosToken (JinjaPromptTemplate tv) = extractBOSToken (ParsedModelfile.Template parsed)"
    and eos: "EosToken (JinjaPromptTemplate tv) = extractEOSToken (ParsedModelfile.Template parsed)"
    using templateField_tokens by blast
  have b: "extractBOSToken (ParsedModelfile.Template parsed) =
      firstMatch (\<lambda>token. prefix token (ParsedModelfile.Template parsed))
               [''[gMASK]'', ''<s>'', ''<|begin_of_text|>'', ''<|im_start|>'']"
    unfolding extractBOSToken_def bosTokens_def by (rule firstWithPrefix_firstMatch)
  have e: "extractEOSToken (ParsedModelfile.Template parsed) =
      firstMatch (\<lambda>token. sublist token (ParsedModelfile.Template parsed))
               [''<|endoftext|>'', ''</s>'', ''<|end_of_text|>'', ''<|im_end|>'', ''<|user|>'']"
    unfolding extractEOSToken_def eosTokens_def by (rule firstContained_firstMatch)
  have u: "sublist ''<|user|>'' (ParsedModelfile.Template parsed) \<and>
            \<not> sublist ''<|endoftext|>'' (ParsedModelfile.Template parsed) \<and>
            \<not> sublist ''</s>'' (ParsedModelfile.Template parsed) \<and>
            \<not> sublist ''<|end_of_text|>'' (ParsedModelfile.Template parsed) \<and>
            \<not> sublist ''<|im_end|>'' (ParsedModelfile.Template parsed)
            \<longrightarrow> extractEOSToken (ParsedModelfile.Template parsed) = ''<|user|>''"
    unfolding e by (simp add: firstMatch_def)
  from c f tv bos eos b e u show ?thesis by (metis (no_types, lifting))
qed

theorem flat_mapper_tokens_witness:
  "\<exists>config tv rest.
     ConvertToLMStudioFormat parseDecimal [''temperature'']
       \<lparr>ParsedModelfile.Template = ''<s><|user|>{{ .Prompt }}<|assistant|>'', System = [],
        Parameters = [''temperature'' \<mapsto> Slice [''0.8'']]\<rparr> = Inr config \<and>
     PredictionConfig.Fields (PredictionConfig config) =
       \<lparr>ConfigField.Key = ''llm.prediction.promptTemplate'',
        ConfigField.Value = TemplateValue tv\<rparr> # rest \<and>
     BosToken (JinjaPromptTemplate tv) = ''<s>'' \<and>
     EosToken (JinjaPromptTemplate tv) = ''<|user|>''"
proof -
  let ?t = "''<s><|user|>{{ .Prompt }}<|assistant|>''"
  let ?p = "\<lparr>ParsedModelfile.Template = ?t, System = [],
        Parameters = [''temperature'' \<mapsto> Slice [''0.8'']]\<rparr>"
  have ne: "ParsedModelfile.Template ?p \<noteq> []" by simp
  have bos: "firstMatch (\<lambda>token. prefix token ?t)
               [''[gMASK]'', ''<s>'', ''<|begin_of_text|>'', ''<|im_start|>''] = ''<s>''"
    by (simp add: firstMatch_def)
  have user: "sublist ''<|user|>'' ?t \<and> \<not> sublist ''<|endoftext|>'' ?t \<and> \<not> sublist ''</s>'' ?t \<and>
        \<not> sublist ''<|end_of_text|>'' ?t \<and> \<not> sublist ''<|im_end|>'' ?t"
    unfolding Contains_sublist [symmetric] by code_simp
  from flat_mapper_tokens [OF ne, of parseDecimal "[''temperature'']"] bos user
  show ?thesis by (simp only: ParsedModelfile.select_convs) metis
qed

text \<open>
  Claim C1. The flat mapper stores the slice it reads from the parameter map under
  \<^verbatim>\<open>stop\<close> as it is. For a parameter map without that key the slice is \<^verbatim>\<open>nil\<close>, which is
  written as \<^verbatim>\<open>null\<close>, not as an empty list; the preset mapper replaces \<^verbatim>\<open>nil\<close> by an
  empty slice first, the flat mapper does not.
\<close>

theorem flat_mapper_stop_nil:
  "\<exists>tv. ConvertToLMStudioFormat ParseFloat []
       \<lparr>ParsedModelfile.Template = ''{{ .Prompt }}'', System = [], Parameters = Map.empty\<rparr> =
     Inr \<lparr>PredictionConfig = \<lparr>PredictionConfig.Fields =
             [\<lparr>ConfigField.Key = ''llm.prediction.promptTemplate'',
               ConfigField.Value = TemplateValue tv\<rparr>]\<rparr>,
          LoadModelConfig = \<lparr>LoadModelConfig.Fields = []\<rparr>\<rparr> \<and>
     JinjaPromptTemplate.StopStrings tv = NilSlice"
  by (simp add: ConvertToLMStudioFormat_def Let_def addPrediction_def templateField_def index_def)

lemma set_configKeys_add:
  "set (configKeys (addPrediction config field)) = insert (ConfigField.Key field) (set (configKeys config))"
  "set (configKeys (addLoad config field)) = insert (ConfigField.Key field) (set (configKeys config))"
  by (auto simp: configKeys_def addPrediction_fields addLoad_fields)

text \<open>The only key one run of the loop body can add to the document.\<close>

lemma mapParameter_keys:
  "set (configKeys (mapParameter ParseFloat parsed config paramKey)) \<subseteq>
   set (configKeys config) \<union>
   {docKey. \<exists>isInt v vs. (paramKey, docKey, isInt) \<in> set numericParameters \<and>
        elems (index (Parameters parsed) paramKey) = v # vs \<and>
        (if isInt then Atoi v \<noteq> None else ParseFloat v \<noteq> None)}"
proof (cases "elems (index (Parameters parsed) paramKey)")
  case Nil
  then show ?thesis by (simp add: mapParameter_def Let_def len_def)
next
  case (Cons v vs)
  define k0 k1 k2 k3 k4 k5 k6 where ks: "k0 = ''stop''" "k1 = ''temperature''" "k2 = ''top_p''"
    "k3 = ''top_k''" "k4 = ''repeat_penalty''" "k5 = ''min_p''" "k6 = ''num_ctx''"
  note defs = mapParameter_def Let_def len_def set_configKeys_add numericParameters_def
  have "?thesis" if "paramKey = k0"
    using that by (simp add: mapParameter_def ks)
  moreover have "?thesis" if "paramKey = k1"
    using that Cons unfolding ks by (cases "ParseFloat v") (auto simp: defs)
  moreover have "?thesis" if "paramKey = k2"
    using that Cons unfolding ks by (cases "ParseFloat v") (auto simp: defs)
  moreover have "?thesis" if "paramKey = k3"
    using that Cons unfolding ks by (cases "Atoi v") (auto simp: defs)
  moreover have "?thesis" if "paramKey = k4"
    using that Cons unfolding ks by (cases "ParseFloat v") (auto simp: defs)
  moreover have "?thesis" if "paramKey = k5"
    using that Cons unfolding ks by (cases "ParseFloat v") (auto simp: defs)
  moreover have "?thesis" if "paramKey = k6"
    using that Cons unfolding ks by (cases "Atoi v") (auto simp: defs)
  moreover have "?thesis"
    if "paramKey \<noteq> k0" "paramKey \<noteq> k1" "paramKey \<noteq> k2" "paramKey \<noteq> k3"
      "paramKey \<noteq> k4" "paramKey \<noteq> k5" "paramKey \<noteq> k6"
    using that unfolding ks by (simp add: mapParameter_def Let_def)
  ultimately show ?thesis by blast
qed


lemma mapParameter_keeps_out:
  assumes "(name, docKey, isInt) \<in> set numericParameters"
    and "elems (index (Parameters parsed) name) = v # vs"
    and "if isInt then Atoi v = None else ParseFloat v = None"
    and "docKey \<notin> set (configKeys config)"
  shows "docKey \<notin> set (configKeys (mapParameter ParseFloat parsed config paramKey))"
proof
  assume "docKey \<in> set (configKeys (mapParameter ParseFloat parsed config paramKey))"
  with assms(4) mapParameter_keys [of ParseFloat parsed config paramKey]
  obtain isInt' v' vs' where m: "(paramKey, docKey, isInt') \<in> set numericParameters"
    and e: "elems (index (Parameters parsed) paramKey) = v' # vs'"
    and ok: "if isInt' then Atoi v' \<noteq> None else ParseFloat v' \<noteq> None"
    by blast
  from m assms(1) have "paramKey = name \<and> isInt' = isInt"
    by (auto simp: numericParameters_def)
  with e ok assms(2,3) show False by (auto split: if_splits)
qed


lemma foldl_mapParameter_keeps_out:
  assumes "(name, docKey, isInt) \<in> set numericParameters"
    and "elems (index (Parameters parsed) name) = v # vs"
    and "if isInt then Atoi v = None else ParseFloat v = None"
  shows "docKey \<notin> set (configKeys config) \<Longrightarrow>
         docKey \<notin> set (configKeys (foldl (mapParameter ParseFloat parsed) config keys))"
proof (induction keys arbitrary: config)
  case Nil
  then show ?case by simp
next
  case (Cons k keys)
  have "docKey \<notin> set (configKeys (mapParameter ParseFloat parsed config k))"
    using assms Cons.prems by (rule mapParameter_keeps_out [where ParseFloat = ParseFloat])
  then show ?case using Cons.IH by simp
qed

lemma numeric_docKey_not_template:
  "(name, docKey, isInt) \<in> set numericParameters \<Longrightarrow> docKey \<noteq> ''llm.prediction.promptTemplate''"
  by (auto simp: numericParameters_def)

lemma templateField_Key:
  "ConfigField.Key (templateField parsed) = ''llm.prediction.promptTemplate''"
  by (simp add: templateField_def Let_def)

text \<open>
  Claim C8. Let the first value of one of the numeric parameters \<^verbatim>\<open>temperature\<close>,
  \<^verbatim>\<open>top_p\<close>, \<^verbatim>\<open>top_k\<close>, \<^verbatim>\<open>repeat_penalty\<close>, \<^verbatim>\<open>min_p\<close>, \<^verbatim>\<open>num_ctx\<close> be a text that its
  number parser rejects. Then the flat mapper returns a document, in whatever order the
  loop meets the keys, and no field of either group has the key of that parameter.
\<close>

theorem nonnumeric_parameter_dropped:
  assumes "(name, docKey, isInt) \<in> set numericParameters"
    and "elems (index (Parameters parsed) name) = v # vs"
    and "if isInt then Atoi v = None else ParseFloat v = None"
  shows "\<exists>config. ConvertToLMStudioFormat ParseFloat keys parsed = Inr config \<and>
           docKey \<notin> set (configKeys config)"
proof -
  let ?e = "\<lparr>PredictionConfig = \<lparr>PredictionConfig.Fields = []\<rparr>,
             LoadModelConfig = \<lparr>LoadModelConfig.Fields = []\<rparr>\<rparr> :: 'a LMStudioConfig"
  let ?c0 = "if ParsedModelfile.Template parsed \<noteq> []
             then addPrediction ?e (templateField parsed) else ?e"
  have "docKey \<notin> set (configKeys ?c0)"
    using numeric_docKey_not_template [OF assms(1)]
    by (simp add: set_configKeys_add templateField_Key) (simp add: configKeys_def)
  then have "docKey \<notin> set (configKeys (foldl (mapParameter ParseFloat parsed) ?c0 keys))"
    by (rule foldl_mapParameter_keeps_out [where ParseFloat = ParseFloat, OF assms])
  then show ?thesis by (simp add: ConvertToLMStudioFormat_def Let_def)
qed

theorem nonnumeric_parameter_dropped_witness:
  "\<exists>config. ConvertToLMStudioFormat parseDecimal [''top_k'', ''temperature'', ''stop'']
       \<lparr>ParsedModelfile.Template = ''{{ .Prompt }}'', System = [],
        Parameters = [''temperature'' \<mapsto> Slice [''abc''], ''top_k'' \<mapsto> Slice [''4o''],
                      ''stop'' \<mapsto> Slice [''User:'']]\<rparr> = Inr config \<and>
     ''llm.prediction.temperature'' \<notin> set (configKeys config)"
proof -
  let ?p = "\<lparr>ParsedModelfile.Template = ''{{ .Prompt }}'', System = [],
        Parameters = [''temperature'' \<mapsto> Slice [''abc''], ''top_k'' \<mapsto> Slice [''4o''],
                      ''stop'' \<mapsto> Slice [''User:'']]\<rparr>"
  have t: "(''temperature'', ''llm.prediction.temperature'', False) \<in> set numericParameters"
    by (simp add: numericParameters_def)
  have v: "elems (index (Parameters ?p) ''temperature'') = ''abc'' # []"
    by (simp add: index_def)
  have n: "if False then Atoi ''abc'' = None else parseDecimal ''abc'' = None"
    by (simp add: parseDecimal_def isDigit_def)
  show ?thesis
    using nonnumeric_parameter_dropped [where ParseFloat = parseDecimal, OF t v n] by blast
qed

section \<open>The preset document\<close>

lemma preset_no_template:
  "ParsedModelfile.Template parsed = [] \<Longrightarrow>
   ConvertToLMStudioPreset ToLower parsed modelName =
     Inr \<lparr>Identifier = ''@local:'' @ ToLower (ReplaceAll modelName CHR '' '' CHR ''-''),
          Name = modelName, Changed = True,
          Operation = \<lparr>PresetOperation.Fields = []\<rparr>, Load = \<lparr>PresetLoad.Fields = []\<rparr>\<rparr>"
  by (simp add: ConvertToLMStudioPreset_def Let_def)

lemma stop_normalised:
  "(if sl = NilSlice then Slice [] else sl) = Slice (elems sl)"
  by (cases sl) simp_all

lemma preset_fields:
  assumes "ParsedModelfile.Template parsed \<noteq> []"
  shows "\<exists>preset tv.
     ConvertToLMStudioPreset ToLower parsed modelName = Inr preset \<and>
     PresetLoad.Fields (Load preset) = [] \<and>
     PresetOperation.Fields (Operation preset) =
       [\<lparr>PresetField.Key = ''llm.prediction.promptTemplate'', PresetField.Value = ManualValue tv\<rparr>,
        \<lparr>PresetField.Key = ''llm.prediction.stopStrings'',
         PresetField.Value = StringsValue (Slice (elems (index (Parameters parsed) ''stop'')))\<rparr>] @
       (if System parsed \<noteq> [] \<and> \<not> Contains (ParsedModelfile.Template parsed) ''<think></think>''
        then [\<lparr>PresetField.Key = ''llm.prediction.systemPrompt'',
               PresetField.Value = StringValue (System parsed)\<rparr>]
        else [])"
  using assms by (simp add: ConvertToLMStudioPreset_def Let_def stop_normalised)

text \<open>
  Claim C2. For a template that is not empty, the preset holds a field with the key
  \<^verbatim>\<open>llm.prediction.systemPrompt\<close> if and only if the system string is not empty and the
  template does not contain \<^verbatim>\<open><think></think>\<close>; and the field with that key and the
  system string as its value is there under the same condition.
\<close>

theorem preset_systemPrompt_iff:
  assumes "ParsedModelfile.Template parsed \<noteq> []"
  shows "\<exists>preset.
     ConvertToLMStudioPreset ToLower parsed modelName = Inr preset \<and>
     ((\<exists>field \<in> set (PresetOperation.Fields (Operation preset)).
         PresetField.Key field = ''llm.prediction.systemPrompt'') \<longleftrightarrow>
      (System parsed \<noteq> [] \<and> \<not> sublist ''<think></think>'' (ParsedModelfile.Template parsed))) \<and>
     (\<lparr>PresetField.Key = ''llm.prediction.systemPrompt'',
       PresetField.Value = StringValue (System parsed)\<rparr>
        \<in> set (PresetOperation.Fields (Operation preset)) \<longleftrightarrow>
      (System parsed \<noteq> [] \<and> \<not> sublist ''<think></think>'' (ParsedModelfile.Template parsed)))"
proof -
  obtain preset tv where p: "ConvertToLMStudioPreset ToLower parsed modelName = Inr preset"
    and f: "PresetOperation.Fields (Operation preset) =
       [\<lparr>PresetField.Key = ''llm.prediction.promptTemplate'', PresetField.Value = ManualValue tv\<rparr>,
        \<lparr>PresetField.Key = ''llm.prediction.stopStrings'',
         PresetField.Value = StringsValue (Slice (elems (index (Parameters parsed) ''stop'')))\<rparr>] @
       (if System parsed \<noteq> [] \<and> \<not> Contains (ParsedModelfile.Template parsed) ''<think></think>''
        then [\<lparr>PresetField.Key = ''llm.prediction.systemPrompt'',
               PresetField.Value = StringValue (System parsed)\<rparr>]
        else [])"
    using preset_fields [OF assms] by blast
  have "(\<exists>field \<in> set (PresetOperation.Fields (Operation preset)).
         PresetField.Key field = ''llm.prediction.systemPrompt'') \<longleftrightarrow>
      (System parsed \<noteq> [] \<and> \<not> sublist ''<think></think>'' (ParsedModelfile.Template parsed))"
    unfolding f by (simp add: Contains_sublist)
  moreover have "(\<lparr>PresetField.Key = ''llm.prediction.systemPrompt'',
       PresetField.Value = StringValue (System parsed)\<rparr>
        \<in> set (PresetOperation.Fields (Operation preset)) \<longleftrightarrow>
      (System parsed \<noteq> [] \<and> \<not> sublist ''<think></think>'' (ParsedModelfile.Template parsed)))"
    unfolding f by (simp add: Contains_sublist)
  ultimately show ?thesis using p by blast
qed

theorem preset_systemPrompt_iff_witness:
  "\<exists>preset.
     ConvertToLMStudioPreset lowerASCII
       \<lparr>ParsedModelfile.Template = ''<|user|>{{ .Prompt }}<|assistant|><think></think>'',
        System = ''Be brief.'', Parameters = Map.empty\<rparr> ''GLM 4'' = Inr preset \<and>
     \<not> (\<exists>field \<in> set (PresetOperation.Fields (Operation preset)).
         PresetField.Key field = ''llm.prediction.systemPrompt'')"
proof -
  let ?t = "''<|user|>{{ .Prompt }}<|assistant|><think></think>''"
  let ?p = "\<lparr>ParsedModelfile.Template = ?t, System = ''Be brief.'', Parameters = Map.empty\<rparr>"
  have ne: "ParsedModelfile.Template ?p \<noteq> []" by simp
  have think: "sublist ''<think></think>'' ?t"
    unfolding Contains_sublist [symmetric] by code_simp
  from preset_systemPrompt_iff [OF ne, of lowerASCII "''GLM 4''"] think
  show ?thesis by (simp only: ParsedModelfile.select_convs) blast
qed

text \<open>
  Claim C10. Two parsed Modelfiles with the same template, the same system string and
  the same values under \<^verbatim>\<open>stop\<close> give the same preset for the same name. The load group
  of every preset is empty, and the prediction group holds no key other than those of
  the prompt template, the stop strings and the system prompt.
\<close>

theorem preset_depends_on_stop_only:
  "(ParsedModelfile.Template p1 = ParsedModelfile.Template p2 \<and> System p1 = System p2 \<and>
    elems (index (Parameters p1) ''stop'') = elems (index (Parameters p2) ''stop'')
    \<longrightarrow> ConvertToLMStudioPreset ToLower p1 modelName = ConvertToLMStudioPreset ToLower p2 modelName) \<and>
   (\<exists>preset. ConvertToLMStudioPreset ToLower p1 modelName = Inr preset \<and>
      PresetLoad.Fields (Load preset) = [] \<and>
      set (map PresetField.Key (PresetOperation.Fields (Operation preset))) \<subseteq>
        {''llm.prediction.promptTemplate'', ''llm.prediction.stopStrings'',
         ''llm.prediction.systemPrompt''})"
proof
  show "ParsedModelfile.Template p1 = ParsedModelfile.Template p2 \<and> System p1 = System p2 \<and>
    elems (index (Parameters p1) ''stop'') = elems (index (Parameters p2) ''stop'')
    \<longrightarrow> ConvertToLMStudioPreset ToLower p1 modelName = ConvertToLMStudioPreset ToLower p2 modelName"
    by (simp add: ConvertToLMStudioPreset_def Let_def stop_normalised)
next
  show "\<exists>preset. ConvertToLMStudioPreset ToLower p1 modelName = Inr preset \<and>
      PresetLoad.Fields (Load preset) = [] \<and>
      set (map PresetField.Key (PresetOperation.Fields (Operation preset))) \<subseteq>
        {''llm.prediction.promptTemplate'', ''llm.prediction.stopStrings'',
         ''llm.prediction.systemPrompt''}"
  proof (cases "ParsedModelfile.Template p1 = []")
    case True
    then show ?thesis by (simp add: preset_no_template)
  next
    case False
    from preset_fields [OF False, of ToLower modelName] show ?thesis by auto
  qed
qed

theorem preset_depends_on_stop_only_witness:
  "ConvertToLMStudioPreset lowerASCII
     \<lparr>ParsedModelfile.Template = ''<|user|>{{ .Prompt }}'', System = ''Be brief.'',
      Parameters = [''stop'' \<mapsto> Slice [''User:''], ''temperature'' \<mapsto> Slice [''0.8''],
                    ''num_ctx'' \<mapsto> Slice [''4096'']]\<rparr> ''GLM 4'' =
   ConvertToLMStudioPreset lowerASCII
     \<lparr>ParsedModelfile.Template = ''<|user|>{{ .Prompt }}'', System = ''Be brief.'',
      Parameters = [''stop'' \<mapsto> Slice [''User:'']]\<rparr> ''GLM 4''"
proof -
  let ?p1 = "\<lparr>ParsedModelfile.Template = ''<|user|>{{ .Prompt }}'', System = ''Be brief.'',
      Parameters = [''stop'' \<mapsto> Slice [''User:''], ''temperature'' \<mapsto> Slice [''0.8''],
                    ''num_ctx'' \<mapsto> Slice [''4096'']]\<rparr>"
  let ?p2 = "\<lparr>ParsedModelfile.Template = ''<|user|>{{ .Prompt }}'', System = ''Be brief.'',
      Parameters = [''stop'' \<mapsto> Slice [''User:'']]\<rparr>"
  have "ParsedModelfile.Template ?p1 = ParsedModelfile.Template ?p2 \<and> System ?p1 = System ?p2 \<and>
    elems (index (Parameters ?p1) ''stop'') = elems (index (Parameters ?p2) ''stop'')"
    by (simp add: index_def)
  with preset_depends_on_stop_only [of ?p1 ?p2 lowerASCII "''GLM 4''"]
  show ?thesis by blast
qed

end
